theory Spec2Isabelle
  imports Complex_Main
begin

section \<open>Go values and library operations used by package ecszap\<close>

text \<open>
  A Go \<^verbatim>\<open>string\<close> is a sequence of bytes: \<^typ>\<open>string\<close>. A run-time panic is a
  value of \<open>runtime_panic\<close>, and a function that can panic returns
  \<open>runtime_panic + 'a\<close> (\<open>Inl\<close> the panic). The only panic the package can raise by
  itself is the bounds check of a slice expression \<^verbatim>\<open>s[:hi]\<close>; its arguments are the
  offending bound and the length of the string.

  A Go \<^verbatim>\<open>error\<close> result is \<open>go_error option\<close>, \<open>None\<close> for \<^verbatim>\<open>nil\<close>.
\<close>

datatype runtime_panic = SliceBoundsOutOfRange int nat

type_synonym go_error = string

text \<open>
  Modelled from the spec: \<^verbatim>\<open>strings.LastIndex\<close> belongs to the Go standard library and
  is not among the sources. It is "the index of the last instance of substr in s, or -1
  if substr is not present in s"; the spec (4.2) refers to it as the search for "the last
  \<^verbatim>\<open>:\<close> character".
\<close>

fun LastIndex :: "string \<Rightarrow> string \<Rightarrow> int" where
  "LastIndex [] substr = (if substr = [] then 0 else - 1)"
| "LastIndex (c # s) substr =
     (let r = LastIndex s substr in
      if 0 \<le> r then r + 1
      else if take (length substr) (c # s) = substr then 0
      else - 1)"

text \<open>
  The slice expression \<^verbatim>\<open>s[:hi]\<close> of a string: Go checks \<^verbatim>\<open>0 <= hi <= len(s)\<close> and
  panics otherwise.
\<close>

definition slice_to :: "string \<Rightarrow> int \<Rightarrow> runtime_panic + string" where
  "slice_to s hi =
     (if 0 \<le> hi \<and> hi \<le> int (length s) then Inr (take (nat hi) s)
      else Inl (SliceBoundsOutOfRange hi (length s)))"

text \<open>
  An \<^verbatim>\<open>int64\<close> is an integer from \<open>- 2 ^ 63\<close> up to, but not including, \<open>2 ^ 63\<close>;
  arithmetic that leaves this range wraps around, which \<open>wrap64\<close> writes out.
\<close>

definition wrap64 :: "int \<Rightarrow> int" where
  "wrap64 n = (n + 2 ^ 63) mod 2 ^ 64 - 2 ^ 63"

text \<open>
  Modelled from the spec: the arithmetic of \<^verbatim>\<open>float64\<close> is the language's and is not
  among the sources; the spec (4.1, 7) speaks of "a 64-bit floating-point number" and of
  "standard floating-point division". A finite \<^verbatim>\<open>float64\<close> is a rational number, the
  conversion of an integer and the division give the binary64 number nearest to the exact
  result, the one with the even significand when two are equally near. For a number \<open>x\<close>
  other than zero, \<open>binaryExponent \<bar>x\<bar>\<close> is the \<open>e\<close> with \<open>2 ^ e \<le> \<bar>x\<bar> < 2 ^ (e + 1)\<close>, and
  the binary64 numbers of that size are the multiples of \<open>2 ^ (e - 52)\<close>. The exponents
  that occur here lie between -10 and 63, far inside the range of binary64, so neither
  overflow nor subnormal numbers are written out.
\<close>

type_synonym float64 = rat

function bitlen :: "int \<Rightarrow> int" where
  "bitlen n = (if n \<le> 0 then 0 else 1 + bitlen (n div 2))"
  by pat_completeness auto
termination
  by (relation "measure nat") auto

declare bitlen.simps [simp del]

definition pow2 :: "int \<Rightarrow> rat" where
  "pow2 e = (if 0 \<le> e then 2 ^ nat e else 1 / 2 ^ nat (- e))"

definition binaryExponent :: "rat \<Rightarrow> int" where
  "binaryExponent x = (if 1 \<le> x then bitlen \<lfloor>x\<rfloor> - 1 else - bitlen (\<lceil>1 / x\<rceil> - 1))"

definition roundHalfEven :: "rat \<Rightarrow> int" where
  "roundHalfEven q =
     (let f = \<lfloor>q\<rfloor>; r = q - of_int f
      in if r < 1 / 2 then f
         else if 1 / 2 < r then f + 1
         else if even f then f else f + 1)"

definition round_binary64 :: "rat \<Rightarrow> float64" where
  "round_binary64 x =
     (if x = 0 then 0
      else let ulp = pow2 (binaryExponent \<bar>x\<bar> - 52)
           in of_int (roundHalfEven (x / ulp)) * ulp)"

definition float64_of_int64 :: "int \<Rightarrow> float64" where
  "float64_of_int64 n = round_binary64 (of_int n)"

definition float64_div :: "float64 \<Rightarrow> float64 \<Rightarrow> float64" where
  "float64_div a b = round_binary64 (a / b)"


section \<open>The host's types: zapcore\<close>

text \<open>
  Modelled from the spec: the declaration of \<^verbatim>\<open>zapcore.EntryCaller\<close>, a type of the host
  that is not among the sources (the spec's CallerInfo, 3). It is a struct with the
  fields \<^verbatim>\<open>Defined\<close>, \<^verbatim>\<open>PC\<close>, \<^verbatim>\<open>File\<close>, \<^verbatim>\<open>Line\<close> and \<^verbatim>\<open>Function\<close>, and a method
  \<^verbatim>\<open>TrimmedPath()\<close>. The method is the host's, not this package's: the record carries
  its result as one more field, so every statement below holds for whatever string the
  host returns.
\<close>

record EntryCaller =
  Defined :: bool
  PC :: nat
  File :: string
  Line :: int
  Function :: string
  TrimmedPath :: string

text \<open>
  Modelled from the spec: \<^verbatim>\<open>zapcore.ObjectEncoder\<close>, an interface of the host that is not
  among the sources; it is the target object of \<^verbatim>\<open>MarshalLogObject\<close> (the spec's
  EncodedCallerObject, 3: fields in the order of insertion). The package reaches it
  through \<^verbatim>\<open>AddString\<close> and \<^verbatim>\<open>AddInt\<close> only, so the encoder is the list of the fields
  added so far, in the order of the calls.
\<close>

datatype field_value = StringValue string | IntValue int

type_synonym ObjectEncoder = "(string \<times> field_value) list"

definition AddString :: "string \<Rightarrow> string \<Rightarrow> ObjectEncoder \<Rightarrow> ObjectEncoder" where
  "AddString key v enc = enc @ [(key, StringValue v)]"

definition AddInt :: "string \<Rightarrow> int \<Rightarrow> ObjectEncoder \<Rightarrow> ObjectEncoder" where
  "AddInt key v enc = enc @ [(key, IntValue v)]"

text \<open>
  A \<^verbatim>\<open>zapcore.ObjectMarshaler\<close> is a value with a method \<^verbatim>\<open>MarshalLogObject\<close>: here the
  method itself.
\<close>

type_synonym ObjectMarshaler =
  "ObjectEncoder \<Rightarrow> runtime_panic + (go_error option \<times> ObjectEncoder)"


section \<open>Timestamps: package time\<close>

text \<open>
  Modelled from the spec: \<^verbatim>\<open>time.Time\<close>, \<^verbatim>\<open>time.UTC\<close>, \<^verbatim>\<open>Time.In\<close> and
  \<^verbatim>\<open>Time.Format\<close> belong to the Go standard library and are not among the sources.
  The spec (3) describes a timestamp as "an absolute point in time with at least
  microsecond resolution and an associated time zone/offset": the instant is the number
  of nanoseconds since the Unix epoch, and the location gives, for an instant in Unix
  seconds, the offset in seconds east of UTC that is in force then. \<^verbatim>\<open>In\<close> keeps the
  instant and replaces the location.
\<close>

type_synonym Location = "int \<Rightarrow> int"

definition UTC :: Location where
  "UTC = (\<lambda>sec. 0)"

record Time =
  unixNano :: int
  loc :: Location

definition Unix :: "Time \<Rightarrow> int" where
  "Unix t = unixNano t div 1000000000"

definition Nanosecond :: "Time \<Rightarrow> int" where
  "Nanosecond t = unixNano t mod 1000000000"

definition zoneOffset :: "Time \<Rightarrow> int" where
  "zoneOffset t = loc t (Unix t)"

definition In :: "Time \<Rightarrow> Location \<Rightarrow> Time" where
  "In t l = t\<lparr>loc := l\<rparr>"

text \<open>
  Modelled from the spec: \<^verbatim>\<open>Time.UnixNano\<close> and the constant \<^verbatim>\<open>time.Microsecond\<close> belong
  to the Go standard library and are not among the sources; the spec (4.1) has them as
  "nanoseconds-since-epoch" and the divisor 1000. \<^verbatim>\<open>UnixNano\<close> returns an \<^verbatim>\<open>int64\<close>,
  computed as seconds times \<open>10 ^ 9\<close> plus nanoseconds in \<^verbatim>\<open>int64\<close> arithmetic: the number
  of nanoseconds since the epoch, wrapped around when it does not fit. A
  \<^verbatim>\<open>time.Duration\<close> is a number of nanoseconds, an \<^verbatim>\<open>int64\<close>.
\<close>

definition UnixNano :: "Time \<Rightarrow> int" where
  "UnixNano t = wrap64 (unixNano t)"

definition Microsecond :: int where
  "Microsecond = 1000"

text \<open>
  Modelled from the spec: the civil date and the clock reading that \<^verbatim>\<open>Format\<close> prints
  are those of the proleptic Gregorian calendar at the timestamp's offset. Days are
  counted from 1 January of year 1, the first day of a 400-year cycle; 719162 days lie
  between that day and the Unix epoch.
\<close>

definition isLeap :: "int \<Rightarrow> bool" where
  "isLeap year = (year mod 4 = 0 \<and> (year mod 100 \<noteq> 0 \<or> year mod 400 = 0))"

definition daysBefore :: "int list" where
  "daysBefore = [0, 31, 59, 90, 120, 151, 181, 212, 243, 273, 304, 334, 365]"

definition yearDay :: "int \<Rightarrow> int \<times> int" where
  "yearDay d =
     (let n400 = d div 146097; d1 = d mod 146097;
          n100 = min 3 (d1 div 36524); d2 = d1 - 36524 * n100;
          n4 = d2 div 1461; d3 = d2 mod 1461;
          n1 = min 3 (d3 div 365); yday = d3 - 365 * n1
      in (400 * n400 + 100 * n100 + 4 * n4 + n1 + 1, yday))"

definition monthDay :: "int \<Rightarrow> int \<Rightarrow> int \<times> int" where
  "monthDay year yday =
     (if isLeap year \<and> yday = 59 then (2, 29)
      else
        let day = (if isLeap year \<and> 59 < yday then yday - 1 else yday);
            m = day div 31;
            e = daysBefore ! nat (m + 1)
        in if e \<le> day then (m + 2, day - e + 1)
           else (m + 1, day - daysBefore ! nat m + 1))"

definition localSeconds :: "Time \<Rightarrow> int" where
  "localSeconds t = Unix t + zoneOffset t"

definition Date :: "Time \<Rightarrow> int \<times> int \<times> int" where
  "Date t =
     (let (year, yday) = yearDay (localSeconds t div 86400 + 719162);
          (month, day) = monthDay year yday
      in (year, month, day))"

definition Clock :: "Time \<Rightarrow> int \<times> int \<times> int" where
  "Clock t =
     (let s = localSeconds t mod 86400
      in (s div 3600, s mod 3600 div 60, s mod 60))"

text \<open>
  Modelled from the spec: the elements of a layout. Of the vocabulary of \<^verbatim>\<open>Format\<close>
  the model knows the elements that the package's layout is made of: the four-digit year
  \<^verbatim>\<open>2006\<close>, the two-digit fields \<^verbatim>\<open>01\<close>, \<^verbatim>\<open>02\<close>, \<^verbatim>\<open>15\<close>, \<^verbatim>\<open>04\<close> and \<^verbatim>\<open>05\<close>, a
  fraction of a second written as a point followed by zeros (and by no further digit),
  and the ISO 8601 zone \<^verbatim>\<open>Z07:00\<close>. Any other byte of a layout stands for itself.
\<close>

datatype layout_elem =
  stdLongYear | stdZeroMonth | stdZeroDay | stdHour | stdZeroMinute | stdZeroSecond
  | stdFracSecond0 nat | stdISO8601ColonTZ | Literal char

definition isDigit :: "char \<Rightarrow> bool" where
  "isDigit c = (c \<in> set ''0123456789'')"

fun layoutElems :: "string \<Rightarrow> layout_elem list" where
  "layoutElems [] = []"
| "layoutElems (c # cs) =
     (if take 4 (c # cs) = ''2006'' then stdLongYear # layoutElems (drop 3 cs)
      else if take 2 (c # cs) = ''01'' then stdZeroMonth # layoutElems (drop 1 cs)
      else if take 2 (c # cs) = ''02'' then stdZeroDay # layoutElems (drop 1 cs)
      else if take 2 (c # cs) = ''15'' then stdHour # layoutElems (drop 1 cs)
      else if take 2 (c # cs) = ''04'' then stdZeroMinute # layoutElems (drop 1 cs)
      else if take 2 (c # cs) = ''05'' then stdZeroSecond # layoutElems (drop 1 cs)
      else if take 6 (c # cs) = ''Z07:00'' then stdISO8601ColonTZ # layoutElems (drop 5 cs)
      else
        let n = length (takeWhile (\<lambda>x. x = CHR ''0'') cs)
        in if c = CHR ''.'' \<and> 0 < n \<and> \<not> (case drop n cs of [] \<Rightarrow> False | d # ds \<Rightarrow> isDigit d)
           then stdFracSecond0 n # layoutElems (drop n cs)
           else Literal c # layoutElems cs)"

text \<open>
  Modelled from the spec: how a field is written. \<open>appendInt x width\<close> is the decimal
  form of \<open>x\<close>, padded with zeros on the left to at least \<open>width\<close> digits and preceded by
  a minus sign when \<open>x\<close> is negative. The fraction is the point and the first \<open>n\<close> of the
  nine digits of the nanosecond, so the digits beyond the \<open>n\<close>-th are cut off, not
  rounded. The zone is \<^verbatim>\<open>Z\<close> at offset zero; otherwise the sign, the hours, a colon and
  the minutes of the offset, whose seconds are cut off.
\<close>

definition digit :: "int \<Rightarrow> char" where
  "digit n = ''0123456789'' ! nat (n mod 10)"

function utoa :: "int \<Rightarrow> string" where
  "utoa n = (if n < 10 then [digit n] else utoa (n div 10) @ [digit n])"
  by pat_completeness auto
termination
  by (relation "measure nat") auto

declare utoa.simps [simp del]

definition appendInt :: "int \<Rightarrow> nat \<Rightarrow> string" where
  "appendInt x width =
     (let ds = utoa \<bar>x\<bar>
      in (if x < 0 then ''-'' else []) @ replicate (width - length ds) (CHR ''0'') @ ds)"

definition appendNano :: "int \<Rightarrow> nat \<Rightarrow> string" where
  "appendNano nanosec n =
     (let ds = appendInt nanosec 9 in ''.'' @ take (length ds - 9 + n) ds)"

definition appendZone :: "int \<Rightarrow> string" where
  "appendZone offset =
     (if offset = 0 then ''Z''
      else
        let zone = (if offset < 0 then - ((- offset) div 60) else offset div 60)
        in (if zone < 0 then ''-'' else ''+'')
           @ appendInt (\<bar>zone\<bar> div 60) 2 @ '':'' @ appendInt (\<bar>zone\<bar> mod 60) 2)"

definition formatElem :: "Time \<Rightarrow> layout_elem \<Rightarrow> string" where
  "formatElem t e =
     (let (year, month, day) = Date t; (hour, minute, second) = Clock t
      in case e of
           stdLongYear \<Rightarrow> appendInt year 4
         | stdZeroMonth \<Rightarrow> appendInt month 2
         | stdZeroDay \<Rightarrow> appendInt day 2
         | stdHour \<Rightarrow> appendInt hour 2
         | stdZeroMinute \<Rightarrow> appendInt minute 2
         | stdZeroSecond \<Rightarrow> appendInt second 2
         | stdFracSecond0 n \<Rightarrow> appendNano (Nanosecond t) n
         | stdISO8601ColonTZ \<Rightarrow> appendZone (zoneOffset t)
         | Literal c \<Rightarrow> [c])"

definition Format :: "Time \<Rightarrow> string \<Rightarrow> string" where
  "Format t layout = concat (map (formatElem t) (layoutElems layout))"


section \<open>The sink: zapcore.PrimitiveArrayEncoder\<close>

text \<open>
  Modelled from the spec: the sink, an interface value of the host whose declaration is
  not among the sources (the spec's "primitive/array encoder" capability, 1 and 9). It is
  taken as a parameter: a record of the methods the package calls, over the sink's own
  state \<open>'s\<close>; a call returns the state it leaves behind.
  \<^verbatim>\<open>AppendFloat64\<close> and \<^verbatim>\<open>AppendString\<close> are methods of every sink. The two type
  assertions of the package
  ask for more: \<^verbatim>\<open>enc.(appendTimeEncoder)\<close> succeeds when the sink has a method
  \<^verbatim>\<open>AppendTimeLayout\<close>, \<^verbatim>\<open>enc.(zapcore.ArrayEncoder)\<close> when it is an array encoder,
  of whose methods the package calls \<^verbatim>\<open>AppendObject\<close>. Such a method is \<open>Some\<close> when
  the sink has it. \<^verbatim>\<open>AppendObject\<close> is handed an object marshaler, which it may run
  on an object encoder; a panic of the marshaler carries through it.
\<close>

record 's PrimitiveArrayEncoder =
  AppendFloat64 :: "float64 \<Rightarrow> 's \<Rightarrow> 's"
  AppendString :: "string \<Rightarrow> 's \<Rightarrow> 's"
  AppendTimeLayout :: "(Time \<Rightarrow> string \<Rightarrow> 's \<Rightarrow> 's) option"
  AppendObject :: "(ObjectMarshaler \<Rightarrow> 's \<Rightarrow> runtime_panic + (go_error option \<times> 's)) option"



section \<open>Package ecszap: encoder.go\<close>

subsection \<open>Time encoders\<close>

definition EpochMicrosTimeEncoder :: "Time \<Rightarrow> 's PrimitiveArrayEncoder \<Rightarrow> 's \<Rightarrow> 's" where
  "EpochMicrosTimeEncoder t enc s =
     (let micros = float64_div (float64_of_int64 (UnixNano t)) (float64_of_int64 Microsecond)
      in AppendFloat64 enc micros s)"

definition rfc3339millis :: string where
  "rfc3339millis = ''2006-01-02T15:04:05.000Z07:00''"

definition RFC3339TimeEncoder :: "Time \<Rightarrow> 's PrimitiveArrayEncoder \<Rightarrow> 's \<Rightarrow> 's" where
  "RFC3339TimeEncoder t enc s =
     (case AppendTimeLayout enc of
        Some appendTimeLayout \<Rightarrow> appendTimeLayout t rfc3339millis s
      | None \<Rightarrow> AppendString enc (Format t rfc3339millis) s)"

definition RFC3339UTCTimeEncoder :: "Time \<Rightarrow> 's PrimitiveArrayEncoder \<Rightarrow> 's \<Rightarrow> 's" where
  "RFC3339UTCTimeEncoder t enc s = RFC3339TimeEncoder (In t UTC) enc s"

subsection \<open>Caller encoders\<close>

record caller =
  EntryCaller :: EntryCaller
  fullPath :: bool

definition MarshalLogObject :: "caller \<Rightarrow> ObjectMarshaler" where
  "MarshalLogObject c enc =
     (case (if fullPath c then Inr (File (EntryCaller c))
            else let file = TrimmedPath (EntryCaller c)
                 in slice_to file (LastIndex file '':'')) of
        Inl p \<Rightarrow> Inl p
      | Inr file \<Rightarrow>
          Inr (None,
               AddInt ''file.line'' (Line (EntryCaller c))
                 (AddString ''file.name'' file
                   (AddString ''function'' (Function (EntryCaller c)) enc))))"

definition encodeCaller :: "caller \<Rightarrow> 's PrimitiveArrayEncoder \<Rightarrow> 's \<Rightarrow> runtime_panic + 's" where
  "encodeCaller c enc s =
     (case AppendObject enc of
        Some appendObject \<Rightarrow>
          (case appendObject (MarshalLogObject c) s of
             Inl p \<Rightarrow> Inl p
           | Inr (err, s') \<Rightarrow> Inr s')
      | None \<Rightarrow> Inr s)"

type_synonym 's CallerEncoder =
  "EntryCaller \<Rightarrow> 's PrimitiveArrayEncoder \<Rightarrow> 's \<Rightarrow> runtime_panic + 's"

definition FullCallerEncoder :: "'s CallerEncoder" where
  "FullCallerEncoder c enc s = encodeCaller \<lparr>EntryCaller = c, fullPath = True\<rparr> enc s"

definition ShortCallerEncoder :: "'s CallerEncoder" where
  "ShortCallerEncoder c enc s = encodeCaller \<lparr>EntryCaller = c, fullPath = False\<rparr> enc s"

subsection \<open>The configuration selector\<close>

text \<open>
  \<^verbatim>\<open>UnmarshalText\<close> assigns to its receiver \<^verbatim>\<open>*e\<close> and returns an error: the result
  is the new value of \<^verbatim>\<open>*e\<close> and the error.
\<close>

definition UnmarshalText :: "'s CallerEncoder \<Rightarrow> string \<Rightarrow> 's CallerEncoder \<times> go_error option" where
  "UnmarshalText e text =
     (if text = ''full'' then (FullCallerEncoder, None)
      else (ShortCallerEncoder, None))"


section \<open>Decimal numerals of a fixed width\<close>






section \<open>Sinks and inputs of the examples\<close>

text \<open>
  \<open>recorder\<close> is an array encoder that keeps the elements appended to it. Handed an
  object marshaler, it runs it on an empty object and keeps the fields the marshaler
  added. It has no \<^verbatim>\<open>AppendTimeLayout\<close>. \<open>primitiveSink\<close> is the same sink without
  the methods of an array encoder, and \<open>layoutRecorder\<close> is the recorder with an
  \<^verbatim>\<open>AppendTimeLayout\<close> that formats the timestamp with the layout it is given and keeps
  the string.
\<close>

datatype elem = FloatElem float64 | StringElem string | ObjectElem ObjectEncoder

definition recorder :: "elem list PrimitiveArrayEncoder" where
  "recorder =
     \<lparr>AppendFloat64 = (\<lambda>v s. s @ [FloatElem v]),
      AppendString = (\<lambda>v s. s @ [StringElem v]),
      AppendTimeLayout = None,
      AppendObject = Some (\<lambda>obj s.
        case obj [] of
          Inl p \<Rightarrow> Inl p
        | Inr (err, added) \<Rightarrow> Inr (err, s @ [ObjectElem added]))\<rparr>"

definition primitiveSink :: "elem list PrimitiveArrayEncoder" where
  "primitiveSink = recorder\<lparr>AppendObject := None\<rparr>"


text \<open>
  \<open>mainCaller\<close> is the caller of the spec's example (8). \<open>undefinedCaller\<close> is the zero
  value \<^verbatim>\<open>zapcore.EntryCaller{}\<close>: its \<^verbatim>\<open>Defined\<close> is false, and for such a caller the
  host's \<^verbatim>\<open>TrimmedPath()\<close> returns the string \<^verbatim>\<open>undefined\<close>.
\<close>

definition mainCaller :: EntryCaller where
  "mainCaller =
     \<lparr>Defined = True, PC = 0, File = ''/src/app/main.go'', Line = 42,
      Function = ''main.Run'', TrimmedPath = ''app/main.go:42''\<rparr>"

definition undefinedCaller :: EntryCaller where
  "undefinedCaller =
     \<lparr>Defined = False, PC = 0, File = [], Line = 0, Function = [],
      TrimmedPath = ''undefined''\<rparr>"


text \<open>
  \<open>exampleTime\<close> is the timestamp of the spec's example (8),
  \<^verbatim>\<open>2021-05-01T10:00:00.123456Z\<close>, which is 1619863200 seconds and 123456000 nanoseconds
  after the epoch, and \<open>afterEpoch\<close> is 1234567 nanoseconds after the epoch.
  \<open>year2300\<close> and \<open>year10000\<close> are the first instants of those years in UTC.
  \<open>kolkata\<close> is a location five and a half hours east of UTC, \<open>hundredHours\<close> one that
  is a hundred hours east of it.
\<close>

definition exampleTime :: Time where
  "exampleTime = \<lparr>unixNano = 1619863200123456000, loc = UTC\<rparr>"

definition afterEpoch :: Time where
  "afterEpoch = \<lparr>unixNano = 1234567, loc = UTC\<rparr>"

definition year2300 :: Time where
  "year2300 = \<lparr>unixNano = 10413792000000000000, loc = UTC\<rparr>"





section \<open>The last colon of a string\<close>

lemma LastIndex_absent: "c \<notin> set s \<Longrightarrow> LastIndex s [c] = - 1"
  by (induction s) auto

lemma LastIndex_last: "c \<notin> set suf \<Longrightarrow> LastIndex (pre @ c # suf) [c] = int (length pre)"
  by (induction pre) (auto simp: LastIndex_absent Let_def)

lemma split_last_occurrence:
  "c \<in> set s \<Longrightarrow> \<exists>pre suf. s = pre @ c # suf \<and> c \<notin> set suf"
  using split_list_last by fastforce


section \<open>The caller object\<close>

lemma MarshalLogObject_full:
  "MarshalLogObject \<lparr>EntryCaller = c, fullPath = True\<rparr> enc =
     Inr (None, enc @ [(''function'', StringValue (Function c)),
                       (''file.name'', StringValue (File c)),
                       (''file.line'', IntValue (Line c))])"
  by (simp add: MarshalLogObject_def AddString_def AddInt_def)

lemma MarshalLogObject_short:
  assumes "TrimmedPath c = pre @ CHR '':'' # suf" and "CHR '':'' \<notin> set suf"
  shows "MarshalLogObject \<lparr>EntryCaller = c, fullPath = False\<rparr> enc =
     Inr (None, enc @ [(''function'', StringValue (Function c)),
                       (''file.name'', StringValue pre),
                       (''file.line'', IntValue (Line c))])"
  using assms
  by (simp add: MarshalLogObject_def AddString_def AddInt_def LastIndex_last slice_to_def)

lemma MarshalLogObject_short_absent:
  assumes "CHR '':'' \<notin> set (TrimmedPath c)"
  shows "MarshalLogObject \<lparr>EntryCaller = c, fullPath = False\<rparr> enc =
     Inl (SliceBoundsOutOfRange (- 1) (length (TrimmedPath c)))"
  using assms
  by (simp add: MarshalLogObject_def LastIndex_absent slice_to_def)

lemma recorder_AppendObject:
  "AppendObject recorder =
     Some (\<lambda>obj s. case obj [] of Inl p \<Rightarrow> Inl p
                    | Inr (err, added) \<Rightarrow> Inr (err, s @ [ObjectElem added]))"
  by (simp add: recorder_def)

lemma undefinedCaller_no_colon: "CHR '':'' \<notin> set (TrimmedPath undefinedCaller)"
  by (simp add: undefinedCaller_def)

lemma ShortCallerEncoder_undefinedCaller:
  "ShortCallerEncoder undefinedCaller recorder s = Inl (SliceBoundsOutOfRange (- 1) 9)"
  by (simp add: ShortCallerEncoder_def encodeCaller_def recorder_AppendObject
      MarshalLogObject_short_absent [OF undefinedCaller_no_colon])
    (simp add: undefinedCaller_def)

text \<open>
  C1. Claim: for every caller whose trimmed path contains no \<^verbatim>\<open>:\<close>, the Short variant
  uses the trimmed path unchanged as \<^verbatim>\<open>file.name\<close> and does not fail. The code does
  otherwise. For the undefined caller, whose trimmed path is \<^verbatim>\<open>undefined\<close>,
  \<^verbatim>\<open>strings.LastIndex\<close> returns -1, the slice expression \<^verbatim>\<open>file[:-1]\<close> panics, and
  the panic leaves \<^verbatim>\<open>MarshalLogObject\<close> and \<^verbatim>\<open>ShortCallerEncoder\<close>. It is so for every
  trimmed path without a \<^verbatim>\<open>:\<close> (\<open>MarshalLogObject_short_absent\<close>).
\<close>

theorem ShortCallerEncoder_panics_without_colon:
  "TrimmedPath undefinedCaller = ''undefined'' \<and>
   LastIndex (TrimmedPath undefinedCaller) '':'' = - 1 \<and>
   MarshalLogObject \<lparr>EntryCaller = undefinedCaller, fullPath = False\<rparr> [] =
     Inl (SliceBoundsOutOfRange (- 1) 9) \<and>
   ShortCallerEncoder undefinedCaller recorder [] = Inl (SliceBoundsOutOfRange (- 1) 9)"
  by (simp add: ShortCallerEncoder_undefinedCaller
      MarshalLogObject_short_absent [OF undefinedCaller_no_colon])
    (simp add: undefinedCaller_def)

text \<open>
  C2. For every caller whose trimmed path contains a \<^verbatim>\<open>:\<close>, the path splits at its
  last \<^verbatim>\<open>:\<close>, and for every such split into \<open>pre\<close>, the colon and a colon-free
  \<open>suf\<close>, the Short variant returns without a panic and with a \<^verbatim>\<open>nil\<close> error, having
  added \<^verbatim>\<open>file.name\<close> with the value \<open>pre\<close>; on the recording sink
  \<^verbatim>\<open>ShortCallerEncoder\<close> appends the one object with that field.
\<close>

theorem ShortCallerEncoder_strips_line_suffix:
  assumes "CHR '':'' \<in> set (TrimmedPath c)"
  shows "(\<exists>pre suf. TrimmedPath c = pre @ '':'' @ suf \<and> CHR '':'' \<notin> set suf) \<and>
    (\<forall>pre suf. TrimmedPath c = pre @ '':'' @ suf \<and> CHR '':'' \<notin> set suf \<longrightarrow>
       MarshalLogObject \<lparr>EntryCaller = c, fullPath = False\<rparr> enc =
         Inr (None, enc @ [(''function'', StringValue (Function c)),
                           (''file.name'', StringValue pre),
                           (''file.line'', IntValue (Line c))]) \<and>
       ShortCallerEncoder c recorder s =
         Inr (s @ [ObjectElem [(''function'', StringValue (Function c)),
                               (''file.name'', StringValue pre),
                               (''file.line'', IntValue (Line c))]]))"
proof (intro conjI allI impI)
  show "\<exists>pre suf. TrimmedPath c = pre @ '':'' @ suf \<and> CHR '':'' \<notin> set suf"
    using split_last_occurrence [OF assms] by simp
next
  fix pre suf
  assume "TrimmedPath c = pre @ '':'' @ suf \<and> CHR '':'' \<notin> set suf"
  then have split: "TrimmedPath c = pre @ CHR '':'' # suf" and free: "CHR '':'' \<notin> set suf"
    by simp_all
  show "MarshalLogObject \<lparr>EntryCaller = c, fullPath = False\<rparr> enc =
         Inr (None, enc @ [(''function'', StringValue (Function c)),
                           (''file.name'', StringValue pre),
                           (''file.line'', IntValue (Line c))])"
    by (rule MarshalLogObject_short [OF split free])
  show "ShortCallerEncoder c recorder s =
         Inr (s @ [ObjectElem [(''function'', StringValue (Function c)),
                               (''file.name'', StringValue pre),
                               (''file.line'', IntValue (Line c))]])"
    by (simp add: ShortCallerEncoder_def encodeCaller_def recorder_AppendObject
        MarshalLogObject_short [OF split free])
qed

theorem ShortCallerEncoder_strips_line_suffix_witness:
  "CHR '':'' \<in> set (TrimmedPath mainCaller) \<and>
   MarshalLogObject \<lparr>EntryCaller = mainCaller, fullPath = False\<rparr> [] =
     Inr (None, [(''function'', StringValue ''main.Run''),
                 (''file.name'', StringValue ''app/main.go''),
                 (''file.line'', IntValue 42)]) \<and>
   ShortCallerEncoder mainCaller recorder [] =
     Inr [ObjectElem [(''function'', StringValue ''main.Run''),
                      (''file.name'', StringValue ''app/main.go''),
                      (''file.line'', IntValue 42)]]"
proof -
  have colon: "CHR '':'' \<in> set (TrimmedPath mainCaller)"
    by (simp add: mainCaller_def)
  have split: "TrimmedPath mainCaller = ''app/main.go'' @ '':'' @ ''42'' \<and>
      CHR '':'' \<notin> set ''42''"
    by (simp add: mainCaller_def)
  from ShortCallerEncoder_strips_line_suffix [OF colon, of "[]" "[]"] split
  have "MarshalLogObject \<lparr>EntryCaller = mainCaller, fullPath = False\<rparr> [] =
      Inr (None, [] @ [(''function'', StringValue (Function mainCaller)),
                       (''file.name'', StringValue ''app/main.go''),
                       (''file.line'', IntValue (Line mainCaller))]) \<and>
    ShortCallerEncoder mainCaller recorder [] =
      Inr ([] @ [ObjectElem [(''function'', StringValue (Function mainCaller)),
                             (''file.name'', StringValue ''app/main.go''),
                             (''file.line'', IntValue (Line mainCaller))]])"
    by blast
  then show ?thesis
    using colon by (simp add: mainCaller_def)
qed


section \<open>The configuration selector\<close>

lemma FullCallerEncoder_mainCaller:
  "FullCallerEncoder mainCaller recorder [] =
     Inr [ObjectElem [(''function'', StringValue ''main.Run''),
                      (''file.name'', StringValue ''/src/app/main.go''),
                      (''file.line'', IntValue 42)]]"
  by (simp add: FullCallerEncoder_def encodeCaller_def recorder_AppendObject MarshalLogObject_full)
    (simp add: mainCaller_def)

lemma ShortCallerEncoder_mainCaller:
  "ShortCallerEncoder mainCaller recorder [] =
     Inr [ObjectElem [(''function'', StringValue ''main.Run''),
                      (''file.name'', StringValue ''app/main.go''),
                      (''file.line'', IntValue 42)]]"
proof -
  have "TrimmedPath mainCaller = ''app/main.go'' @ CHR '':'' # ''42''"
    by (simp add: mainCaller_def)
  moreover have "CHR '':'' \<notin> set ''42''"
    by simp
  ultimately show ?thesis
    by (simp add: ShortCallerEncoder_def encodeCaller_def recorder_AppendObject
        MarshalLogObject_short [where pre = "''app/main.go''" and suf = "''42''"])
      (simp add: mainCaller_def)
qed

text \<open>The two encoders are different functions: they differ on the caller of the example.\<close>

lemma FullCallerEncoder_neq_ShortCallerEncoder:
  "(FullCallerEncoder :: elem list CallerEncoder) \<noteq> ShortCallerEncoder"
proof
  assume "(FullCallerEncoder :: elem list CallerEncoder) = ShortCallerEncoder"
  then have "FullCallerEncoder mainCaller recorder [] = ShortCallerEncoder mainCaller recorder []"
    by simp
  then show False
    by (simp add: FullCallerEncoder_mainCaller ShortCallerEncoder_mainCaller)
qed

text \<open>
  C3. For every receiver and every text, \<^verbatim>\<open>UnmarshalText\<close> returns the \<^verbatim>\<open>nil\<close> error;
  it assigns \<^verbatim>\<open>FullCallerEncoder\<close> when the text is \<^verbatim>\<open>full\<close>, byte for byte, and
  \<^verbatim>\<open>ShortCallerEncoder\<close> for every other text; so (the two being different functions)
  it assigns \<^verbatim>\<open>FullCallerEncoder\<close> if and only if the text is \<^verbatim>\<open>full\<close>.
\<close>

theorem UnmarshalText_selects:
  fixes e :: "'s CallerEncoder" and e' :: "elem list CallerEncoder"
  shows "snd (UnmarshalText e text) = None \<and>
    (text = ''full'' \<longrightarrow> fst (UnmarshalText e text) = FullCallerEncoder) \<and>
    (text \<noteq> ''full'' \<longrightarrow> fst (UnmarshalText e text) = ShortCallerEncoder) \<and>
    (fst (UnmarshalText e' text) = FullCallerEncoder \<longleftrightarrow> text = ''full'')"
  using FullCallerEncoder_neq_ShortCallerEncoder by (simp add: UnmarshalText_def)

theorem UnmarshalText_selects_witness:
  "UnmarshalText (ShortCallerEncoder :: elem list CallerEncoder) ''full'' = (FullCallerEncoder, None) \<and>
   UnmarshalText (FullCallerEncoder :: elem list CallerEncoder) [] = (ShortCallerEncoder, None) \<and>
   UnmarshalText (FullCallerEncoder :: elem list CallerEncoder) ''short'' = (ShortCallerEncoder, None) \<and>
   UnmarshalText (FullCallerEncoder :: elem list CallerEncoder) ''FULL'' = (ShortCallerEncoder, None) \<and>
   UnmarshalText (FullCallerEncoder :: elem list CallerEncoder) ''xyz'' = (ShortCallerEncoder, None)"
proof -
  have ne: "[] \<noteq> ''full''" "''short'' \<noteq> ''full''" "''FULL'' \<noteq> ''full''" "''xyz'' \<noteq> ''full''"
    by simp_all
  show ?thesis
    using UnmarshalText_selects [of "ShortCallerEncoder :: elem list CallerEncoder" "''full''"]
      UnmarshalText_selects [of "FullCallerEncoder :: elem list CallerEncoder" "[]"]
      UnmarshalText_selects [of "FullCallerEncoder :: elem list CallerEncoder" "''short''"]
      UnmarshalText_selects [of "FullCallerEncoder :: elem list CallerEncoder" "''FULL''"]
      UnmarshalText_selects [of "FullCallerEncoder :: elem list CallerEncoder" "''xyz''"]
      ne
    by (simp add: prod_eq_iff)
qed


section \<open>The fields of the caller object\<close>

text \<open>
  Where the trimmed path contains a \<^verbatim>\<open>:\<close>, both variants add the three fields
  \<^verbatim>\<open>function\<close>, \<^verbatim>\<open>file.name\<close> and \<^verbatim>\<open>file.line\<close>, in this order, and differ in the
  value of \<^verbatim>\<open>file.name\<close> at most.
\<close>

lemma caller_fields_with_colon:
  assumes "CHR '':'' \<in> set (TrimmedPath c)"
  shows "\<exists>name.
    MarshalLogObject \<lparr>EntryCaller = c, fullPath = True\<rparr> enc =
      Inr (None, enc @ [(''function'', StringValue (Function c)),
                        (''file.name'', StringValue (File c)),
                        (''file.line'', IntValue (Line c))]) \<and>
    MarshalLogObject \<lparr>EntryCaller = c, fullPath = False\<rparr> enc =
      Inr (None, enc @ [(''function'', StringValue (Function c)),
                        (''file.name'', StringValue name),
                        (''file.line'', IntValue (Line c))])"
proof -
  from split_last_occurrence [OF assms] obtain pre suf
    where "TrimmedPath c = pre @ CHR '':'' # suf" and "CHR '':'' \<notin> set suf"
    by blast
  then show ?thesis
    using MarshalLogObject_short [of c pre suf enc] MarshalLogObject_full [of c enc] by blast
qed

text \<open>
  C4. Claim: for every caller, both variants add exactly the three fields \<^verbatim>\<open>function\<close>,
  \<^verbatim>\<open>file.name\<close> and \<^verbatim>\<open>file.line\<close>, in this order. The Full variant does
  (\<open>MarshalLogObject_full\<close>), and so does the Short variant where the trimmed path
  contains a \<^verbatim>\<open>:\<close> (\<open>caller_fields_with_colon\<close>). For the undefined caller the Short
  variant adds no field: \<^verbatim>\<open>MarshalLogObject\<close> does not return, and on the recording
  sink \<^verbatim>\<open>ShortCallerEncoder\<close> does not return either.
\<close>

theorem short_variant_adds_no_field_without_colon:
  "(\<nexists>err added.
      MarshalLogObject \<lparr>EntryCaller = undefinedCaller, fullPath = False\<rparr> [] = Inr (err, added)) \<and>
   (\<nexists>s'. ShortCallerEncoder undefinedCaller recorder [] = Inr s')"
  by (simp add: ShortCallerEncoder_undefinedCaller
      MarshalLogObject_short_absent [OF undefinedCaller_no_colon])

text \<open>
  C5. For every caller and every sink that is not an array encoder, both caller encoders
  return without a panic and leave the sink's state as it was.
\<close>

theorem encodeCaller_without_ArrayEncoder:
  assumes "AppendObject enc = None"
  shows "FullCallerEncoder c enc s = Inr s \<and> ShortCallerEncoder c enc s = Inr s"
  using assms by (simp add: FullCallerEncoder_def ShortCallerEncoder_def encodeCaller_def)

theorem encodeCaller_without_ArrayEncoder_witness:
  "AppendObject primitiveSink = None \<and>
   FullCallerEncoder mainCaller primitiveSink [] = Inr [] \<and>
   ShortCallerEncoder mainCaller primitiveSink [] = Inr [] \<and>
   ShortCallerEncoder undefinedCaller primitiveSink [StringElem ''x''] = Inr [StringElem ''x'']"
proof -
  have none: "AppendObject primitiveSink = None"
    by (simp add: primitiveSink_def)
  show ?thesis
    using none encodeCaller_without_ArrayEncoder [OF none, of mainCaller "[]"]
      encodeCaller_without_ArrayEncoder [OF none, of undefinedCaller "[StringElem ''x'']"]
    by simp
qed

text \<open>
  C10. Claim: for every caller, the two variants add the same values of \<^verbatim>\<open>function\<close>
  and \<^verbatim>\<open>file.line\<close> and can differ in \<^verbatim>\<open>file.name\<close> only. They do where the trimmed
  path contains a \<^verbatim>\<open>:\<close> (\<open>caller_fields_with_colon\<close>). For the undefined caller the
  Full variant appends the object with its three fields and the Short variant panics,
  so the two differ in \<^verbatim>\<open>function\<close> and \<^verbatim>\<open>file.line\<close> as well.
\<close>

theorem variants_differ_without_colon:
  "FullCallerEncoder undefinedCaller recorder [] =
     Inr [ObjectElem [(''function'', StringValue []),
                      (''file.name'', StringValue []),
                      (''file.line'', IntValue 0)]] \<and>
   ShortCallerEncoder undefinedCaller recorder [] = Inl (SliceBoundsOutOfRange (- 1) 9)"
  by (simp add: ShortCallerEncoder_undefinedCaller FullCallerEncoder_def encodeCaller_def
      recorder_AppendObject MarshalLogObject_full)
    (simp add: undefinedCaller_def)

section \<open>Decimal numerals\<close>




















section \<open>The layout of the package\<close>















section \<open>The time encoders\<close>

text \<open>
  C6. For every timestamp and every sink, in every state of the sink,
  \<^verbatim>\<open>RFC3339UTCTimeEncoder\<close> does what \<^verbatim>\<open>RFC3339TimeEncoder\<close> does with the timestamp
  moved to UTC, which is the same instant at offset zero.
\<close>

theorem RFC3339UTCTimeEncoder_normalizes:
  "RFC3339UTCTimeEncoder t enc s = RFC3339TimeEncoder (In t UTC) enc s \<and>
   unixNano (In t UTC) = unixNano t \<and> zoneOffset (In t UTC) = 0"
  by (simp add: RFC3339UTCTimeEncoder_def In_def zoneOffset_def UTC_def)
















section \<open>Conversion and division in float64\<close>

lemma bitlen_nonpos: "n \<le> 0 \<Longrightarrow> bitlen n = 0"
  by (subst bitlen.simps) simp

lemma bitlen_pos: "0 < n \<Longrightarrow> bitlen n = 1 + bitlen (n div 2)"
  by (subst bitlen.simps) simp

lemma wrap64_id: "- (2 ^ 63) \<le> n \<Longrightarrow> n < 2 ^ 63 \<Longrightarrow> wrap64 n = n"
  by (simp add: wrap64_def)

lemma bitlen_less_power: "n < 2 ^ k \<Longrightarrow> bitlen n \<le> int k"
proof (induction k arbitrary: n)
  case 0
  then show ?case by (simp add: bitlen_nonpos)
next
  case (Suc k)
  show ?case
  proof (cases "n \<le> 0")
    case True
    then show ?thesis by (simp add: bitlen_nonpos)
  next
    case False
    from Suc.prems have "n div 2 < 2 ^ k" by simp
    from Suc.IH [OF this] False show ?thesis
      by (simp add: bitlen_pos)
  qed
qed

lemma pow2_nonzero: "pow2 e \<noteq> 0"
  by (simp add: pow2_def)

lemma roundHalfEven_of_int: "roundHalfEven (of_int k) = k"
  by (simp add: roundHalfEven_def)

text \<open>
  A number that is a multiple of the unit in its last place is a binary64 number:
  rounding leaves it as it is.
\<close>

lemma round_binary64_exact:
  assumes "x / pow2 (binaryExponent \<bar>x\<bar> - 52) = of_int k"
  shows "round_binary64 x = x"
proof (cases "x = 0")
  case True
  then show ?thesis by (simp add: round_binary64_def)
next
  case False
  have "of_int k * pow2 (binaryExponent \<bar>x\<bar> - 52) = x"
    using assms pow2_nonzero [of "binaryExponent \<bar>x\<bar> - 52"]
    by (metis nonzero_divide_eq_eq)
  with False assms show ?thesis
    by (simp add: round_binary64_def Let_def roundHalfEven_of_int)
qed

lemma binaryExponent_of_int: "1 \<le> m \<Longrightarrow> binaryExponent (of_int m) = bitlen m - 1"
  by (simp add: binaryExponent_def)

text \<open>
  The conversion of an integer of at most 53 bits is exact.
\<close>

lemma float64_of_int64_exact:
  assumes "\<bar>n\<bar> \<le> 2 ^ 53"
  shows "float64_of_int64 n = of_int n"
proof (cases "n = 0")
  case True
  then show ?thesis by (simp add: float64_of_int64_def round_binary64_def)
next
  case False
  define m where "m = \<bar>n\<bar>"
  have m: "1 \<le> m" "m \<le> 2 ^ 53"
    using False assms by (simp_all add: m_def)
  have abs: "\<bar>of_int n :: rat\<bar> = of_int m"
    by (simp add: m_def)
  have expo: "binaryExponent \<bar>of_int n :: rat\<bar> - 52 = bitlen m - 53"
    using binaryExponent_of_int [OF m(1)] by (simp add: abs)
  have "\<exists>k. (of_int n :: rat) / pow2 (bitlen m - 53) = of_int k"
  proof (cases "m = 2 ^ 53")
    case True
    then have "bitlen m = 54"
      by (simp add: bitlen_pos bitlen_nonpos)
    moreover from True have "n = 2 ^ 53 \<or> n = - (2 ^ 53)"
      by (auto simp: m_def)
    ultimately show ?thesis
      by (auto simp: pow2_def intro: exI [of _ "2 ^ 52"] exI [of _ "- (2 ^ 52)"])
  next
    case False
    with m have "m < 2 ^ 53" by simp
    then have "bitlen m \<le> 53"
      using bitlen_less_power [of m 53] by simp
    then have "(of_int n :: rat) / pow2 (bitlen m - 53) = of_int (n * 2 ^ nat (53 - bitlen m))"
      by (auto simp: pow2_def)
    then show ?thesis ..
  qed
  then obtain k where "(of_int n :: rat) / pow2 (binaryExponent \<bar>of_int n :: rat\<bar> - 52) = of_int k"
    by (auto simp: expo)
  then show ?thesis
    unfolding float64_of_int64_def by (rule round_binary64_exact)
qed

lemma float64_of_int64_Microsecond: "float64_of_int64 Microsecond = 1000"
  by (simp add: Microsecond_def float64_of_int64_exact)

lemma EpochMicrosTimeEncoder_eq:
  "EpochMicrosTimeEncoder t enc s =
     AppendFloat64 enc (round_binary64 (round_binary64 (of_int (wrap64 (unixNano t))) / 1000)) s"
  unfolding EpochMicrosTimeEncoder_def float64_of_int64_Microsecond
  by (simp add: UnixNano_def float64_div_def float64_of_int64_def)

lemma float64_year2300:
  "round_binary64 (round_binary64 (of_int (wrap64 10413792000000000000)) / 1000) =
     - 8032952073709552"
  "round_binary64 (10413792000000000000 / 1000) = 10413792000000000"
  by code_simp+

lemma float64_exampleTime:
  "round_binary64 (round_binary64 1619863200123456000 / 1000) = 1619863200123456"
  by code_simp

lemma float64_afterEpoch:
  "round_binary64 (1234567 / 1000) = 1357420771768533 / 1099511627776"
  by code_simp

text \<open>
  The conversion rounds where the integer has more than 53 bits, and the division rounds
  again: the result need not be the float nearest to the exact quotient.
\<close>

lemma float64_rounds_twice:
  "round_binary64 (round_binary64 1619863200861425548 / 1000) = 6479452803445703 / 4"
  "round_binary64 (1619863200861425548 / 1000) = 3239726401722851 / 2"
  by code_simp+

lemma year2300_Date: "Date year2300 = (2300, 1, 1)"
  by (simp add: Date_def localSeconds_def Unix_def zoneOffset_def year2300_def UTC_def
      Let_def yearDay_def monthDay_def isLeap_def daysBefore_def)


section \<open>The epoch encoder\<close>

text \<open>
  Claim C7 says that, for every timestamp, the value appended is the 64-bit float of the
  nanoseconds since the epoch divided by 1000. The encoder takes the nanoseconds from
  \<^verbatim>\<open>UnixNano\<close>, an \<^verbatim>\<open>int64\<close>, and they fit an \<^verbatim>\<open>int64\<close> only between the years 1678 and
  2262. The first instant of the year 2300 is 10413792000000000000 nanoseconds after the
  epoch, and the float nearest to that number divided by 1000 is 10413792000000000; the
  encoder appends - 8032952073709552.
\<close>

theorem EpochMicrosTimeEncoder_wraps_after_2262:
  "Date year2300 = (2300, 1, 1) \<and> unixNano year2300 = 10413792000000000000 \<and>
   UnixNano year2300 = - 8032952073709551616 \<and>
   EpochMicrosTimeEncoder year2300 recorder [] = [FloatElem (- 8032952073709552)] \<and>
   round_binary64 (of_int (unixNano year2300) / 1000) = 10413792000000000 \<and>
   EpochMicrosTimeEncoder year2300 recorder [] \<noteq>
     AppendFloat64 recorder (round_binary64 (of_int (unixNano year2300) / 1000)) []"
proof -
  have "UnixNano year2300 = - 8032952073709551616"
    by (simp add: UnixNano_def wrap64_def year2300_def)
  moreover have "EpochMicrosTimeEncoder year2300 recorder [] = [FloatElem (- 8032952073709552)]"
    using float64_year2300(1)
    by (simp add: EpochMicrosTimeEncoder_eq year2300_def recorder_def)
  moreover have "round_binary64 (of_int (unixNano year2300) / 1000) = 10413792000000000"
    using float64_year2300(2) by (simp add: year2300_def)
  ultimately show ?thesis
    by (simp add: year2300_Date recorder_def) (simp add: year2300_def)
qed

text \<open>
  C7, as amended. For every timestamp and every sink, in every state of the sink,
  \<^verbatim>\<open>EpochMicrosTimeEncoder\<close> makes one call of the sink, \<^verbatim>\<open>AppendFloat64\<close>, and returns;
  the value is the nanoseconds of \<^verbatim>\<open>UnixNano\<close> converted to \<^verbatim>\<open>float64\<close> and divided by
  1000 in \<^verbatim>\<open>float64\<close>. For a timestamp whose nanoseconds since the epoch fit an \<^verbatim>\<open>int64\<close>
  these are the nanoseconds since the epoch, rounded once by the conversion and once by
  the division. When they are at most \<open>2 ^ 53\<close> in magnitude, the conversion is exact and
  the value is the float nearest to the nanoseconds since the epoch divided by 1000.
\<close>

theorem EpochMicrosTimeEncoder_appends_micros:
  "EpochMicrosTimeEncoder t enc s =
     AppendFloat64 enc (float64_div (float64_of_int64 (UnixNano t)) 1000) s \<and>
   (- (2 ^ 63) \<le> unixNano t \<and> unixNano t < 2 ^ 63 \<longrightarrow>
      EpochMicrosTimeEncoder t enc s =
        AppendFloat64 enc (round_binary64 (round_binary64 (of_int (unixNano t)) / 1000)) s) \<and>
   (\<bar>unixNano t\<bar> \<le> 2 ^ 53 \<longrightarrow>
      EpochMicrosTimeEncoder t enc s =
        AppendFloat64 enc (round_binary64 (of_int (unixNano t) / 1000)) s)"
proof (intro conjI impI)
  show "EpochMicrosTimeEncoder t enc s =
      AppendFloat64 enc (float64_div (float64_of_int64 (UnixNano t)) 1000) s"
    by (simp add: EpochMicrosTimeEncoder_def float64_of_int64_Microsecond)
next
  assume "- (2 ^ 63) \<le> unixNano t \<and> unixNano t < 2 ^ 63"
  then have "wrap64 (unixNano t) = unixNano t"
    by (simp add: wrap64_id)
  then show "EpochMicrosTimeEncoder t enc s =
      AppendFloat64 enc (round_binary64 (round_binary64 (of_int (unixNano t)) / 1000)) s"
    by (simp add: EpochMicrosTimeEncoder_eq)
next
  assume small: "\<bar>unixNano t\<bar> \<le> 2 ^ 53"
  then have "wrap64 (unixNano t) = unixNano t"
    by (intro wrap64_id) simp_all
  moreover from small have "round_binary64 (of_int (unixNano t)) = of_int (unixNano t)"
    using float64_of_int64_exact [of "unixNano t"] by (simp add: float64_of_int64_def)
  ultimately show "EpochMicrosTimeEncoder t enc s =
      AppendFloat64 enc (round_binary64 (of_int (unixNano t) / 1000)) s"
    by (simp add: EpochMicrosTimeEncoder_eq)
qed

theorem EpochMicrosTimeEncoder_appends_micros_witness:
  "- (2 ^ 63) \<le> unixNano exampleTime \<and> unixNano exampleTime < 2 ^ 63 \<and>
   EpochMicrosTimeEncoder exampleTime recorder [] = [FloatElem 1619863200123456] \<and>
   \<bar>unixNano afterEpoch\<bar> \<le> 2 ^ 53 \<and>
   EpochMicrosTimeEncoder afterEpoch recorder [] =
     [FloatElem (1357420771768533 / 1099511627776)]"
proof -
  have range: "- (2 ^ 63) \<le> unixNano exampleTime \<and> unixNano exampleTime < 2 ^ 63"
    by (simp add: exampleTime_def)
  have small: "\<bar>unixNano afterEpoch\<bar> \<le> 2 ^ 53"
    by (simp add: afterEpoch_def)
  from EpochMicrosTimeEncoder_appends_micros [of exampleTime recorder "[]"] range
  have "EpochMicrosTimeEncoder exampleTime recorder [] =
      AppendFloat64 recorder
        (round_binary64 (round_binary64 (of_int (unixNano exampleTime)) / 1000)) []"
    by blast
  then have "EpochMicrosTimeEncoder exampleTime recorder [] = [FloatElem 1619863200123456]"
    by (simp add: exampleTime_def recorder_def float64_exampleTime)
  moreover from EpochMicrosTimeEncoder_appends_micros [of afterEpoch recorder "[]"] small
  have "EpochMicrosTimeEncoder afterEpoch recorder [] =
      AppendFloat64 recorder (round_binary64 (of_int (unixNano afterEpoch) / 1000)) []"
    by blast
  then have "EpochMicrosTimeEncoder afterEpoch recorder [] =
      [FloatElem (1357420771768533 / 1099511627776)]"
    by (simp add: afterEpoch_def recorder_def float64_afterEpoch)
  ultimately show ?thesis
    using range small by simp
qed

end
